theory Spec2Isabelle
  imports Main "HOL-Library.Sublist"
begin

section \<open>The message service of \<^verbatim>\<open>apps/meteor/server/services/messages/service.ts\<close>\<close>

text \<open>
  The service class \<^verbatim>\<open>MessageService\<close> holds six hook objects and threads every message
  through them in \<^verbatim>\<open>beforeSave\<close>. The hook classes themselves
  (\<^verbatim>\<open>BeforeSaveMarkdownParser\<close>, \<^verbatim>\<open>BeforeSaveBadWords\<close>, \<^verbatim>\<open>BeforeSaveSpotify\<close>,
  \<^verbatim>\<open>BeforeSaveJumpToMessage\<close>, \<^verbatim>\<open>BeforeSaveCheckMAC\<close>, \<^verbatim>\<open>BeforeSavePreventMention\<close>) live in
  other files; the orchestration, the freshness gate, the settings reads, the avatar
  wrapper, the bad-words watcher and \<^verbatim>\<open>saveSystemMessage\<close> are in \<^verbatim>\<open>service.ts\<close> and
  are embedded below. A hook whose body is elsewhere is a parameter of the model.
\<close>

subsection \<open>Errors, messages, rooms, users\<close>

text \<open>A thrown JavaScript \<^verbatim>\<open>Error\<close> (or a rejected promise), with its message.\<close>

datatype error = Error string

record quoted =
  quote_author :: string
  quote_text :: string
  quote_author_icon :: string
  quote_link :: string

datatype attachment = StreamingLink string | QuotedMessage quoted

text \<open>
  A JavaScript \<^verbatim>\<open>Date\<close>: a valid date holds its time value, the integer number of
  milliseconds that \<^verbatim>\<open>getTime()\<close> returns; for an invalid date (\<^verbatim>\<open>new Date(NaN)\<close>)
  \<^verbatim>\<open>getTime()\<close> returns \<^verbatim>\<open>NaN\<close>. An invalid date is an object all the same, hence truthy.
\<close>

datatype js_date = ValidDate int | InvalidDate

text \<open>
  \<^verbatim>\<open>IMessage\<close>, whose declaration is in the typings package: the fields are those of the
  spec's Message (identifier, room, sender, raw and rendered text, attachments, creation
  timestamp, edited marker). \<^verbatim>\<open>ts\<close> is optional because \<^verbatim>\<open>isEditedOrOld\<close> tests
  \<^verbatim>\<open>!message.ts\<close>.
\<close>

record message =
  mid :: string
  rid :: string
  sender :: string
  msg :: string
  md :: "string option"
  attachments :: "attachment list"
  ts :: "js_date option"
  editedAt :: "js_date option"

record room =
  room_id :: string
  prid :: "string option"

text \<open>\<^verbatim>\<open>Pick<IUser, '_id' | 'username' | 'name' | 'language'>\<close>; \<^verbatim>\<open>username\<close> is optional.\<close>

record user =
  user_id :: string
  username :: "string option"
  name :: "string option"
  language :: "string option"

subsection \<open>Settings\<close>

text \<open>
  The settings store, with each key at the type at which the source reads it
  (\<^verbatim>\<open>settings.get<string>\<close>, \<^verbatim>\<open>settings.get<boolean>\<close>, \<^verbatim>\<open>settings.get<number>\<close>). The quote chain
  limit is a count, hence a natural number.
\<close>

record settings =
  Message_CustomDomain_AutoLink :: string
  HexColorPreview_Enabled :: bool
  Katex_Enabled :: bool
  Katex_Dollar_Syntax :: bool
  Katex_Parenthesis_Syntax :: bool
  Message_QuoteChainLimit :: nat
  Site_Url :: string
  UI_Use_Real_Name :: bool
  Message_Read_Receipt_Enabled :: bool
  Message_AllowBadWordsFilter :: bool
  Message_BadWordsFilterList :: string
  Message_BadWordsWhitelist :: string

subsection \<open>String helpers of JavaScript\<close>

text \<open>\<^verbatim>\<open>String.prototype.toLowerCase\<close> on the ASCII letters; every other character is kept.\<close>

definition lower_char :: "char \<Rightarrow> char" where
  "lower_char c =
     (case map_of (zip ''ABCDEFGHIJKLMNOPQRSTUVWXYZ'' ''abcdefghijklmnopqrstuvwxyz'') c of
        None \<Rightarrow> c
      | Some d \<Rightarrow> d)"

definition toLowerCase :: "string \<Rightarrow> string" where
  "toLowerCase s = map lower_char s"

text \<open>\<^verbatim>\<open>String(v)\<close> of a value that is a string or \<^verbatim>\<open>undefined\<close>.\<close>

definition String :: "string option \<Rightarrow> string" where
  "String v = (case v of None \<Rightarrow> ''undefined'' | Some s \<Rightarrow> s)"

text \<open>\<^verbatim>\<open>s.split(',')\<close>: the pieces between the commas, an empty string giving one empty piece.\<close>

fun split_comma :: "string \<Rightarrow> string list" where
  "split_comma [] = [[]]"
| "split_comma (c # cs) =
     (if c = CHR '','' then [] # split_comma cs
      else (case split_comma cs of [] \<Rightarrow> [[c]] | p # ps \<Rightarrow> (c # p) # ps))"

text \<open>
  Strings are sequences of bytes, the UTF-8 encoding of the JavaScript string.
  \<^verbatim>\<open>s.trim()\<close> removes white space and line terminators from both ends: U+0009 to U+000D,
  U+0020, U+00A0, U+1680, U+2000 to U+200A, U+2028, U+2029, U+202F, U+205F, U+3000 and
  U+FEFF, listed here in their encodings.
\<close>

definition white_space :: "string list" where
  "white_space =
     [[CHR 0x09], [CHR 0x0A], [CHR 0x0B], [CHR 0x0C], [CHR 0x0D], [CHR 0x20],
      [CHR 0xC2, CHR 0xA0],
      [CHR 0xE1, CHR 0x9A, CHR 0x80],
      [CHR 0xE2, CHR 0x80, CHR 0x80], [CHR 0xE2, CHR 0x80, CHR 0x81],
      [CHR 0xE2, CHR 0x80, CHR 0x82], [CHR 0xE2, CHR 0x80, CHR 0x83],
      [CHR 0xE2, CHR 0x80, CHR 0x84], [CHR 0xE2, CHR 0x80, CHR 0x85],
      [CHR 0xE2, CHR 0x80, CHR 0x86], [CHR 0xE2, CHR 0x80, CHR 0x87],
      [CHR 0xE2, CHR 0x80, CHR 0x88], [CHR 0xE2, CHR 0x80, CHR 0x89],
      [CHR 0xE2, CHR 0x80, CHR 0x8A],
      [CHR 0xE2, CHR 0x80, CHR 0xA8], [CHR 0xE2, CHR 0x80, CHR 0xA9],
      [CHR 0xE2, CHR 0x80, CHR 0xAF],
      [CHR 0xE2, CHR 0x81, CHR 0x9F],
      [CHR 0xE3, CHR 0x80, CHR 0x80],
      [CHR 0xEF, CHR 0xBB, CHR 0xBF]]"

text \<open>Removing, from the front, every leading occurrence of one of the given sequences.\<close>

function strip_leading :: "string list \<Rightarrow> string \<Rightarrow> string" where
  "strip_leading toks s =
     (case find (\<lambda>t. t \<noteq> [] \<and> prefix t s) toks of
        None \<Rightarrow> s
      | Some t \<Rightarrow> strip_leading toks (drop (length t) s))"
  by pat_completeness auto
termination
proof (relation "measure (\<lambda>(toks, s). length s)")
  show "wf (measure (\<lambda>(toks, s). length s))" by simp
next
  fix toks :: "string list" and s t :: string
  assume "find (\<lambda>t. t \<noteq> [] \<and> prefix t s) toks = Some t"
  then have "t \<noteq> []" and "prefix t s"
    by (auto simp: find_Some_iff)
  then have "s \<noteq> []" and "0 < length t"
    by auto
  then show "((toks, drop (length t) s), (toks, s)) \<in> measure (\<lambda>(toks, s). length s)"
    by simp
qed

declare strip_leading.simps [simp del]

definition trim :: "string \<Rightarrow> string" where
  "trim s = rev (strip_leading (map rev white_space) (rev (strip_leading white_space s)))"

subsection \<open>Module constant and construction\<close>

text \<open>
  \<^verbatim>\<open>const disableMarkdownParser = ['yes', 'true'].includes(String(process.env.DISABLE_MESSAGE_PARSER).toLowerCase())\<close>,
  evaluated once when the module is loaded; the argument is the value of the environment
  variable then (\<open>None\<close> when it is unset).
\<close>

definition disableMarkdownParser :: "string option \<Rightarrow> bool" where
  "disableMarkdownParser v = (toLowerCase (String v) \<in> set [''yes'', ''true''])"


subsection \<open>The bad-words hook object\<close>

text \<open>
  Modelled from the spec: the class \<^verbatim>\<open>BeforeSaveBadWords\<close> (its \<^verbatim>\<open>disable\<close>, \<^verbatim>\<open>configure\<close>
  and \<^verbatim>\<open>filterBadWords\<close> methods) is not in \<^verbatim>\<open>service.ts\<close>. The spec gives its state as the
  current word list and whitelist, or disabled; a disabled stage is a pass-through that
  leaves the text unchanged. The masking itself is a pluggable policy, the parameter
  \<open>clean\<close>.
\<close>

type_synonym badwords_state = "(string \<times> string) option"

definition disable :: "badwords_state \<Rightarrow> badwords_state" where
  "disable b = None"

definition configure :: "badwords_state \<Rightarrow> string \<Rightarrow> string \<Rightarrow> badwords_state" where
  "configure b badWordsList goodWordsList = Some (badWordsList, goodWordsList)"

definition BeforeSaveBadWords_filterBadWords ::
  "(string \<Rightarrow> string \<Rightarrow> string \<Rightarrow> string) \<Rightarrow> badwords_state \<Rightarrow> message \<Rightarrow> message" where
  "BeforeSaveBadWords_filterBadWords clean b m =
     (case b of None \<Rightarrow> m
      | Some (badWordsList, goodWordsList) \<Rightarrow> m\<lparr>msg := clean badWordsList goodWordsList (msg m)\<rparr>)"

subsection \<open>The service object\<close>

text \<open>
  The fields of \<^verbatim>\<open>MessageService\<close> that carry state of their own: the flag given to
  \<^verbatim>\<open>new BeforeSaveMarkdownParser(!disableMarkdownParser)\<close> and the state of
  \<^verbatim>\<open>this.badWords\<close>. \<^verbatim>\<open>created\<close> builds them; its arguments are the value of the
  environment variable when the module was loaded and the state of a fresh
  \<^verbatim>\<open>new BeforeSaveBadWords()\<close>, whose class is elsewhere.
\<close>

record service =
  markdownParser :: bool
  badWords :: badwords_state

definition created :: "string option \<Rightarrow> badwords_state \<Rightarrow> service" where
  "created env_DISABLE_MESSAGE_PARSER fresh_badWords =
     \<lparr>markdownParser = (\<not> disableMarkdownParser env_DISABLE_MESSAGE_PARSER),
      badWords = fresh_badWords\<rparr>"

text \<open>
  The callback that \<^verbatim>\<open>configureBadWords\<close> registers with \<^verbatim>\<open>settings.watchMultiple\<close> for the
  keys \<^verbatim>\<open>Message_AllowBadWordsFilter\<close>, \<^verbatim>\<open>Message_BadWordsFilterList\<close> and
  \<^verbatim>\<open>Message_BadWordsWhitelist\<close>; its argument is the triple of their values. The callback
  is taken as one atomic step.
\<close>

definition configureBadWords_callback :: "bool \<times> string \<times> string \<Rightarrow> service \<Rightarrow> service" where
  "configureBadWords_callback vals svc =
     (case vals of (enabled, badWordsList, whiteList) \<Rightarrow>
        if \<not> enabled then svc\<lparr>badWords := disable (badWords svc)\<rparr>
        else svc\<lparr>badWords := configure (badWords svc) badWordsList whiteList\<rparr>)"

text \<open>The values the watcher hands to the callback, read from a settings store.\<close>

definition watched_values :: "settings \<Rightarrow> bool \<times> string \<times> string" where
  "watched_values st =
     (Message_AllowBadWordsFilter st, Message_BadWordsFilterList st, Message_BadWordsWhitelist st)"

subsection \<open>The world a pipeline run sees\<close>

text \<open>
  Everything outside the run that the run reads: the settings store, the service object,
  \<^verbatim>\<open>Date.now()\<close> and the rest (database, permissions) as \<open>ext\<close>. Every hook is
  asynchronous; the model of a hook returns, besides its result, the world as it is when the
  awaited promise settles, since other tasks (a settings change among them) may run while
  \<^verbatim>\<open>beforeSave\<close> is suspended.
\<close>

record 'x world =
  settings_store :: settings
  this_service :: service
  clock :: int
  ext :: 'x

subsection \<open>Configuration reads\<close>

record katex_config =
  dollarSyntax :: bool
  parenthesisSyntax :: bool

record markdown_config =
  colors :: bool
  emoticons :: bool
  customDomains :: "string list"
  katex :: "katex_config option"

definition getMarkdownConfig :: "settings \<Rightarrow> markdown_config" where
  "getMarkdownConfig st =
     (let customDomains =
            (if Message_CustomDomain_AutoLink st \<noteq> []
             then map trim (split_comma (Message_CustomDomain_AutoLink st))
             else [])
      in \<lparr>colors = HexColorPreview_Enabled st,
          emoticons = True,
          customDomains = customDomains,
          katex = (if Katex_Enabled st
                   then Some \<lparr>dollarSyntax = Katex_Dollar_Syntax st,
                              parenthesisSyntax = Katex_Parenthesis_Syntax st\<rparr>
                   else None)\<rparr>)"

text \<open>The object literal passed as \<^verbatim>\<open>config\<close> to \<^verbatim>\<open>createAttachmentForMessageURLs\<close>.\<close>

record quote_config =
  chainLimit :: nat
  siteUrl :: string
  useRealName :: bool

definition getQuoteConfig :: "settings \<Rightarrow> quote_config" where
  "getQuoteConfig st =
     \<lparr>chainLimit = Message_QuoteChainLimit st,
      siteUrl = Site_Url st,
      useRealName = UI_Use_Real_Name st\<rparr>"

subsection \<open>The freshness gate\<close>

text \<open>
  Modelled from the spec: \<^verbatim>\<open>isEditedMessage\<close> is imported from the typings package; the
  spec calls what it tests the message's edited marker.
\<close>

definition isEditedMessage :: "message \<Rightarrow> bool" where
  "isEditedMessage m = (editedAt m \<noteq> None)"

text \<open>
  \<^verbatim>\<open>isEditedMessage(message) || !message.ts || Math.abs(Date.now() - message.ts.getTime()) > 60000\<close>;
  the first argument is \<^verbatim>\<open>Date.now()\<close>. On an invalid date \<^verbatim>\<open>!message.ts\<close> is false and the
  difference is \<^verbatim>\<open>NaN\<close>, which no comparison finds greater than 60000.
\<close>

definition isEditedOrOld :: "int \<Rightarrow> message \<Rightarrow> bool" where
  "isEditedOrOld now m =
     (isEditedMessage m \<or>
      (case ts m of
         None \<Rightarrow> True
       | Some InvalidDate \<Rightarrow> False
       | Some (ValidDate t) \<Rightarrow> \<bar>now - t\<bar> > 60000))"


subsection \<open>The hooks and the pipeline\<close>

text \<open>
  The methods of the hook objects that \<^verbatim>\<open>beforeSave\<close> awaits. A transform resolves to a
  message or rejects; a check of the validation group resolves (\<open>None\<close>) or rejects with
  its veto (\<open>Some e\<close>). \<^verbatim>\<open>Promise.all\<close> rejects with the rejection that settles first, so
  the order in which the three checks settle belongs to the environment too.
\<close>

datatype check = CheckMAC | MentionAll | MentionHere

record 'x hooks =
  parseMarkdown :: "message \<Rightarrow> markdown_config \<Rightarrow> 'x world \<Rightarrow> (error + message) \<times> 'x world"
  filterBadWords :: "message \<Rightarrow> 'x world \<Rightarrow> (error + message) \<times> 'x world"
  convertSpotifyLinks :: "message \<Rightarrow> 'x world \<Rightarrow> (error + message) \<times> 'x world"
  createAttachmentForMessageURLs ::
    "message \<Rightarrow> user \<Rightarrow> quote_config \<Rightarrow> 'x world \<Rightarrow> (error + message) \<times> 'x world"
  isWithinLimits :: "message \<Rightarrow> room \<Rightarrow> 'x world \<Rightarrow> error option"
  preventMention :: "message \<Rightarrow> user \<Rightarrow> string \<Rightarrow> string \<Rightarrow> 'x world \<Rightarrow> error option"
  settle_order :: "check list"

text \<open>The calls a run makes, in the order it makes them, with their arguments.\<close>

datatype call =
    ParseMarkdown message markdown_config
  | FilterBadWords message
  | ConvertSpotifyLinks message
  | CreateAttachmentForMessageURLs message user quote_config
  | IsWithinLimits message room
  | PreventMention message user string string

text \<open>
  \<^verbatim>\<open>await Promise.all([p1, p2, p3])\<close> on promises that resolve to nothing: it rejects with
  the first rejection in settling order, and resolves when none rejects. A check that the
  given order leaves out settles after the listed ones, in array order.
\<close>

definition promise_all :: "check list \<Rightarrow> (check \<Rightarrow> error option) \<Rightarrow> error option" where
  "promise_all order res =
     (case List.map_filter res (order @ [CheckMAC, MentionAll, MentionHere]) of
        [] \<Rightarrow> None
      | e # _ \<Rightarrow> Some e)"

text \<open>
  \<^verbatim>\<open>beforeSave({ message, room, user })\<close>. The result is the list of hook calls made and
  either the rejection or the returned message. An awaited transform that rejects ends the
  run with its rejection. The three checks return promises, so all three calls are made
  before \<^verbatim>\<open>Promise.all\<close> waits for them; \<^verbatim>\<open>Date.now()\<close> is read when the gate is evaluated,
  after stage 4 has returned.
\<close>

definition beforeSave ::
  "'x hooks \<Rightarrow> message \<Rightarrow> room \<Rightarrow> user \<Rightarrow> 'x world \<Rightarrow> call list \<times> (error + message)" where
  "beforeSave h message0 room0 user0 w0 =
     (let config1 = getMarkdownConfig (settings_store w0);
          c1 = ParseMarkdown message0 config1
      in case parseMarkdown h message0 config1 w0 of
           (Inl e, w1) \<Rightarrow> ([c1], Inl e)
         | (Inr m1, w1) \<Rightarrow>
     (let c2 = FilterBadWords m1
      in case filterBadWords h m1 w1 of
           (Inl e, w2) \<Rightarrow> ([c1, c2], Inl e)
         | (Inr m2, w2) \<Rightarrow>
     (let c3 = ConvertSpotifyLinks m2
      in case convertSpotifyLinks h m2 w2 of
           (Inl e, w3) \<Rightarrow> ([c1, c2, c3], Inl e)
         | (Inr m3, w3) \<Rightarrow>
     (let config4 = getQuoteConfig (settings_store w3);
          c4 = CreateAttachmentForMessageURLs m3 user0 config4
      in case createAttachmentForMessageURLs h m3 user0 config4 w3 of
           (Inl e, w4) \<Rightarrow> ([c1, c2, c3, c4], Inl e)
         | (Inr m4, w4) \<Rightarrow>
             if \<not> isEditedOrOld (clock w4) m4 then
               (let res = (\<lambda>c. case c of
                             CheckMAC \<Rightarrow> isWithinLimits h m4 room0 w4
                           | MentionAll \<Rightarrow> preventMention h m4 user0 ''all'' ''mention-all'' w4
                           | MentionHere \<Rightarrow> preventMention h m4 user0 ''here'' ''mention-here'' w4)
                in ([c1, c2, c3, c4,
                     IsWithinLimits m4 room0,
                     PreventMention m4 user0 ''all'' ''mention-all'',
                     PreventMention m4 user0 ''here'' ''mention-here''],
                    case promise_all (settle_order h) res of
                      Some e \<Rightarrow> Inl e
                    | None \<Rightarrow> Inr m4))
             else ([c1, c2, c3, c4], Inr m4)))))"

text \<open>Which calls belong to the validation group, and whether a run made any of them.\<close>

fun is_validation :: "call \<Rightarrow> bool" where
  "is_validation (IsWithinLimits _ _) = True"
| "is_validation (PreventMention _ _ _ _) = True"
| "is_validation _ = False"

definition validation_calls :: "call list \<Rightarrow> call list" where
  "validation_calls trace = filter is_validation trace"


text \<open>The stage of the pipeline a call belongs to (step 6 is the validation group).\<close>

fun stage_no :: "call \<Rightarrow> nat" where
  "stage_no (ParseMarkdown _ _) = 1"
| "stage_no (FilterBadWords _) = 2"
| "stage_no (ConvertSpotifyLinks _) = 3"
| "stage_no (CreateAttachmentForMessageURLs _ _ _) = 4"
| "stage_no (IsWithinLimits _ _) = 6"
| "stage_no (PreventMention _ _ _ _) = 6"

subsection \<open>The spec's wording of the gate and of the configuration read\<close>

text \<open>
  The spec's \<open>isFreshAndUnedited\<close>, word for word: no edited marker, and no creation
  timestamp or a creation timestamp within 60 seconds of the processing time.
\<close>

definition isFreshAndUnedited_spec :: "int \<Rightarrow> message \<Rightarrow> bool" where
  "isFreshAndUnedited_spec now m =
     (\<not> isEditedMessage m \<and>
      (case ts m of
         None \<Rightarrow> True
       | Some InvalidDate \<Rightarrow> False
       | Some (ValidDate t) \<Rightarrow> \<bar>now - t\<bar> \<le> 60000))"

text \<open>
  The spec's "dereferenced once at the start and used for the whole run": every
  configuration a stage receives is the one computed from the settings at the start.
\<close>

definition config_read_once :: "'x world \<Rightarrow> call list \<Rightarrow> bool" where
  "config_read_once w0 trace =
     list_all (\<lambda>c. case c of
                 ParseMarkdown _ cfg \<Rightarrow> cfg = getMarkdownConfig (settings_store w0)
               | CreateAttachmentForMessageURLs _ _ cfg \<Rightarrow> cfg = getQuoteConfig (settings_store w0)
               | _ \<Rightarrow> True) trace"

text \<open>The configurations a run hands to its stages, in the order of the calls.\<close>

definition configs_of :: "call list \<Rightarrow> (markdown_config + quote_config) list" where
  "configs_of trace =
     List.map_filter (\<lambda>c. case c of
                        ParseMarkdown _ cfg \<Rightarrow> Some (Inl cfg)
                      | CreateAttachmentForMessageURLs _ _ cfg \<Rightarrow> Some (Inr cfg)
                      | _ \<Rightarrow> None) trace"

subsection \<open>The collaborators handed to the quote stage\<close>

text \<open>
  The \<^verbatim>\<open>getUserAvatarURL(user?: string)\<close> method of the object literal given to
  \<^verbatim>\<open>new BeforeSaveJumpToMessage\<close>: \<^verbatim>\<open>(user && getUserAvatarURL(user)) || ''\<close>. The imported
  resolver is the parameter; it may throw, or return \<^verbatim>\<open>undefined\<close> (\<open>None\<close>).
\<close>

definition getUserAvatarURL :: "(string \<Rightarrow> error + string option) \<Rightarrow> string option \<Rightarrow> error + string" where
  "getUserAvatarURL resolver user =
     (case user of
        None \<Rightarrow> Inr []
      | Some un \<Rightarrow>
          if un = [] then Inr []
          else (case resolver un of
                  Inl e \<Rightarrow> Inl e
                | Inr None \<Rightarrow> Inr []
                | Inr (Some url) \<Rightarrow> if url = [] then Inr [] else Inr url))"

text \<open>
  The four collaborators of the object literal: \<^verbatim>\<open>getMessages\<close>, \<^verbatim>\<open>getRooms\<close> and
  \<^verbatim>\<open>canAccessRoom\<close> forward to the models and to the authorization service, taken here as
  lookups that answer.
\<close>

record quote_deps =
  getMessages :: "string list \<Rightarrow> message list"
  getRooms :: "string list \<Rightarrow> room list"
  canAccessRoom :: "room \<Rightarrow> user \<Rightarrow> bool"
  avatar_resolver :: "string \<Rightarrow> error + string option"

subsection \<open>The quote-link stage\<close>

text \<open>A permalink found in a text: the link itself, and the room and message it names.\<close>

record permalink =
  link_url :: string
  link_rid :: string
  link_mid :: string

text \<open>
  Modelled from the spec: the class \<^verbatim>\<open>BeforeSaveJumpToMessage\<close> and its method
  \<^verbatim>\<open>createAttachmentForMessageURLs\<close> are not in \<^verbatim>\<open>service.ts\<close>. The spec's steps for one match:
  resolve the referenced message and room, skipping the match when either is missing;
  skip it when the acting user may not access the room; resolve the author's avatar, the
  empty string on failure; build the quoted attachment.
\<close>

definition resolveQuote :: "quote_deps \<Rightarrow> user \<Rightarrow> permalink \<Rightarrow> attachment option" where
  "resolveQuote d u l =
     (case find (\<lambda>m. mid m = link_mid l) (getMessages d [link_mid l]) of
        None \<Rightarrow> None
      | Some qm \<Rightarrow>
          (case find (\<lambda>r. room_id r = link_rid l) (getRooms d [link_rid l]) of
             None \<Rightarrow> None
           | Some qr \<Rightarrow>
               if \<not> canAccessRoom d qr u then None
               else Some (QuotedMessage
                      \<lparr>quote_author = sender qm,
                       quote_text = msg qm,
                       quote_author_icon =
                         (case getUserAvatarURL (avatar_resolver d) (Some (sender qm)) of
                            Inl e \<Rightarrow> []
                          | Inr url \<Rightarrow> url),
                       quote_link = link_url l\<rparr>)))"

text \<open>
  Modelled from the spec: the matches are taken left to right; once \<open>n\<close> attachments have
  been appended by this stage, further matches are ignored. \<open>appended\<close> is what the stage
  has appended so far.
\<close>

fun appendQuotes ::
  "quote_deps \<Rightarrow> user \<Rightarrow> nat \<Rightarrow> permalink list \<Rightarrow> attachment list \<Rightarrow> attachment list" where
  "appendQuotes d u n [] appended = appended"
| "appendQuotes d u n (l # ls) appended =
     (if n \<le> length appended then appended
      else (case resolveQuote d u l of
              None \<Rightarrow> appendQuotes d u n ls appended
            | Some a \<Rightarrow> appendQuotes d u n ls (appended @ [a])))"

text \<open>
  Modelled from the spec: the stage scans the text for permalinks on this deployment
  (the matcher \<open>scan\<close>, a pluggable policy, gets the site URL and the text and returns the
  matches in order of appearance) and appends the quoted attachments to the message.
\<close>

definition BeforeSaveJumpToMessage_createAttachmentForMessageURLs ::
  "quote_deps \<Rightarrow> (string \<Rightarrow> string \<Rightarrow> permalink list) \<Rightarrow> message \<Rightarrow> user \<Rightarrow> quote_config \<Rightarrow> message" where
  "BeforeSaveJumpToMessage_createAttachmentForMessageURLs d scan m u config =
     m\<lparr>attachments :=
         attachments m @ appendQuotes d u (chainLimit config) (scan (siteUrl config) (msg m)) []\<rparr>"

text \<open>
  A match is a valid, accessible quotable permalink when its message and its room resolve
  and the acting user may access the room.
\<close>

definition quotable :: "quote_deps \<Rightarrow> user \<Rightarrow> permalink \<Rightarrow> bool" where
  "quotable d u l =
     (find (\<lambda>m. mid m = link_mid l) (getMessages d [link_mid l]) \<noteq> None \<and>
      (case find (\<lambda>r. room_id r = link_rid l) (getRooms d [link_rid l]) of
         None \<Rightarrow> False
       | Some qr \<Rightarrow> canAccessRoom d qr u))"

subsection \<open>System messages\<close>

text \<open>
  What \<^verbatim>\<open>saveSystemMessage\<close> hands to \<^verbatim>\<open>Messages.createWithTypeRoomIdMessageUserAndUnread\<close>,
  and the state it can write to: the message collection and the broadcasts asked for.
\<close>

record 'e system_message =
  sm_type :: string
  sm_rid :: string
  sm_message :: string
  sm_user_id :: string
  sm_username :: string
  sm_name :: "string option"
  sm_unread :: bool
  sm_extraData :: "'e option"

record 'db persistence =
  messages_db :: 'db
  broadcasts :: "string list"

text \<open>
  \<^verbatim>\<open>saveSystemMessage(type, rid, message, owner, extraData)\<close>. The insert is the parameter
  \<open>create\<close>: it returns the inserted identifier or rejects, and the collection after it.
  \<^verbatim>\<open>void broadcastMessageSentEvent(...)\<close> is not awaited; the model records the identifier it
  was asked to broadcast.
\<close>

definition saveSystemMessage ::
  "('e system_message \<Rightarrow> 'db \<Rightarrow> (error + string) \<times> 'db) \<Rightarrow> settings \<Rightarrow>
   string \<Rightarrow> string \<Rightarrow> string \<Rightarrow> user \<Rightarrow> 'e option \<Rightarrow> 'db persistence \<Rightarrow>
   (error + string) \<times> 'db persistence" where
  "saveSystemMessage create st type0 rid0 message0 owner extraData s =
     (case username owner of
        None \<Rightarrow> (Inl (Error ''The username cannot be empty.''), s)
      | Some un \<Rightarrow>
          if un = [] then (Inl (Error ''The username cannot be empty.''), s)
          else
            (case create \<lparr>sm_type = type0, sm_rid = rid0, sm_message = message0,
                          sm_user_id = user_id owner, sm_username = un,
                          sm_name = name owner,
                          sm_unread = Message_Read_Receipt_Enabled st,
                          sm_extraData = extraData\<rparr> (messages_db s) of
               (Inl e, db) \<Rightarrow> (Inl e, s\<lparr>messages_db := db\<rparr>)
             | (Inr insertedId, db) \<Rightarrow>
                 (Inr insertedId,
                  \<lparr>messages_db = db, broadcasts = broadcasts s @ [insertedId]\<rparr>)))"

subsection \<open>Sample data\<close>

definition sample_settings :: settings where
  "sample_settings =
     \<lparr>Message_CustomDomain_AutoLink = ''chat.example, intra.example'',
      HexColorPreview_Enabled = True,
      Katex_Enabled = False,
      Katex_Dollar_Syntax = False,
      Katex_Parenthesis_Syntax = True,
      Message_QuoteChainLimit = 2,
      Site_Url = ''https://chat.example'',
      UI_Use_Real_Name = False,
      Message_Read_Receipt_Enabled = False,
      Message_AllowBadWordsFilter = False,
      Message_BadWordsFilterList = ''damn'',
      Message_BadWordsWhitelist = []\<rparr>"

definition sample_world :: "unit world" where
  "sample_world =
     \<lparr>settings_store = sample_settings, this_service = created None None, clock = 1000000, ext = ()\<rparr>"

definition sample_message :: message where
  "sample_message =
     \<lparr>mid = ''m1'', rid = ''GENERAL'', sender = ''alice'', msg = ''hi @all'', md = None,
      attachments = [], ts = Some (ValidDate 990000), editedAt = None\<rparr>"

definition undated_message :: message where
  "undated_message = sample_message\<lparr>ts := None\<rparr>"

definition edited_message :: message where
  "edited_message = sample_message\<lparr>editedAt := Some (ValidDate 995000)\<rparr>"

definition stale_message :: message where
  "stale_message = sample_message\<lparr>ts := Some (ValidDate 900000)\<rparr>"

definition sample_room :: room where
  "sample_room = \<lparr>room_id = ''GENERAL'', prid = None\<rparr>"

definition sample_user :: user where
  "sample_user =
     \<lparr>user_id = ''u1'', username = Some ''alice'', name = Some ''Alice'', language = None\<rparr>"

definition nameless_user :: user where
  "nameless_user = sample_user\<lparr>username := Some []\<rparr>"

text \<open>Hooks that return the message as it is and veto nothing.\<close>

definition pass_hooks :: "unit hooks" where
  "pass_hooks =
     \<lparr>parseMarkdown = (\<lambda>m c w. (Inr m, w)),
      filterBadWords = (\<lambda>m w. (Inr m, w)),
      convertSpotifyLinks = (\<lambda>m w. (Inr m, w)),
      createAttachmentForMessageURLs = (\<lambda>m u c w. (Inr m, w)),
      isWithinLimits = (\<lambda>m r w. None),
      preventMention = (\<lambda>m u mention permission w. None),
      settle_order = [CheckMAC, MentionAll, MentionHere]\<rparr>"

text \<open>Hooks whose stages each leave a mark on the message.\<close>

definition mark_hooks :: "unit hooks" where
  "mark_hooks =
     pass_hooks
       \<lparr>parseMarkdown := (\<lambda>m c w. (Inr (m\<lparr>md := Some ''hi @all''\<rparr>), w)),
        filterBadWords := (\<lambda>m w. (Inr (m\<lparr>msg := ''hi @***''\<rparr>), w)),
        convertSpotifyLinks := (\<lambda>m w. (Inr (m\<lparr>sender := ''bob''\<rparr>), w)),
        createAttachmentForMessageURLs :=
          (\<lambda>m u c w. (Inr (m\<lparr>attachments := [StreamingLink ''42'']\<rparr>), w))\<rparr>"

text \<open>Hooks whose mention guard vetoes the mention of everyone.\<close>

definition veto_hooks :: "unit hooks" where
  "veto_hooks =
     pass_hooks
       \<lparr>preventMention := (\<lambda>m u mention permission w.
           if mention = ''all'' then Some (Error ''error-action-not-allowed'') else None)\<rparr>"

text \<open>Hooks during whose first stage a settings change arrives.\<close>

definition reload_hooks :: "unit hooks" where
  "reload_hooks =
     pass_hooks
       \<lparr>parseMarkdown := (\<lambda>m c w.
           (Inr m, w\<lparr>settings_store := (settings_store w)\<lparr>Message_QuoteChainLimit := 5\<rparr>\<rparr>))\<rparr>"


text \<open>A masking policy that stars out the whole text.\<close>

definition sample_clean :: "string \<Rightarrow> string \<Rightarrow> string \<Rightarrow> string" where
  "sample_clean badWordsList goodWordsList t = replicate (length t) CHR ''*''"

text \<open>
  Three stored messages (one without a sender name, one in a room the user may not
  enter), two rooms, and a text with five permalinks, the first to a message that does
  not exist.
\<close>

definition sample_deps :: quote_deps where
  "sample_deps =
     \<lparr>getMessages = (\<lambda>ids. filter (\<lambda>m. mid m \<in> set ids)
                        [sample_message, sample_message\<lparr>mid := ''m2'', sender := []\<rparr>,
                         sample_message\<lparr>mid := ''m3'', rid := ''SECRET''\<rparr>]),
      getRooms = (\<lambda>ids. filter (\<lambda>r. room_id r \<in> set ids)
                     [sample_room, sample_room\<lparr>room_id := ''SECRET''\<rparr>]),
      canAccessRoom = (\<lambda>r u. room_id r = ''GENERAL''),
      avatar_resolver = (\<lambda>un. Inr (Some (''/avatar/'' @ un)))\<rparr>"

definition link_to :: "string \<Rightarrow> string \<Rightarrow> permalink" where
  "link_to r i = \<lparr>link_url = ''https://chat.example/'' @ r @ ''?msg='' @ i, link_rid = r, link_mid = i\<rparr>"

definition sample_links :: "permalink list" where
  "sample_links =
     [link_to ''GENERAL'' ''m9'', link_to ''GENERAL'' ''m1'', link_to ''SECRET'' ''m3'',
      link_to ''GENERAL'' ''m2'', link_to ''GENERAL'' ''m1'']"

definition sample_scan :: "string \<Rightarrow> string \<Rightarrow> permalink list" where
  "sample_scan site t = (if site = ''https://chat.example'' then sample_links else [])"

text \<open>An insert that stores the text and numbers the identifiers.\<close>

definition sample_create :: "unit system_message \<Rightarrow> string list \<Rightarrow> (error + string) \<times> string list" where
  "sample_create sm db = (Inr (replicate (Suc (length db)) CHR ''i''), db @ [sm_message sm])"

definition empty_persistence :: "string list persistence" where
  "empty_persistence = \<lparr>messages_db = [], broadcasts = []\<rparr>"


section \<open>Properties\<close>

subsection \<open>Helper lemmas\<close>

text \<open>What a run does once its four transform stages have returned.\<close>

lemma beforeSave_stages:
  assumes "parseMarkdown h m (getMarkdownConfig (settings_store w0)) w0 = (Inr m1, w1)"
    and "filterBadWords h m1 w1 = (Inr m2, w2)"
    and "convertSpotifyLinks h m2 w2 = (Inr m3, w3)"
    and "createAttachmentForMessageURLs h m3 u (getQuoteConfig (settings_store w3)) w3 = (Inr m4, w4)"
  shows "beforeSave h m r u w0 =
     ([ParseMarkdown m (getMarkdownConfig (settings_store w0)), FilterBadWords m1,
       ConvertSpotifyLinks m2, CreateAttachmentForMessageURLs m3 u (getQuoteConfig (settings_store w3))]
      @ (if isEditedOrOld (clock w4) m4 then []
         else [IsWithinLimits m4 r, PreventMention m4 u ''all'' ''mention-all'',
               PreventMention m4 u ''here'' ''mention-here'']),
      if isEditedOrOld (clock w4) m4 then Inr m4
      else (case promise_all (settle_order h)
                   (\<lambda>c. case c of
                             CheckMAC \<Rightarrow> isWithinLimits h m4 r w4
                           | MentionAll \<Rightarrow> preventMention h m4 u ''all'' ''mention-all'' w4
                           | MentionHere \<Rightarrow> preventMention h m4 u ''here'' ''mention-here'' w4) of
              Some e \<Rightarrow> Inl e | None \<Rightarrow> Inr m4))"
  using assms by (simp add: beforeSave_def Let_def)

lemma isEditedOrOld_iff:
  "isEditedOrOld now m \<longleftrightarrow>
     \<not> (\<not> isEditedMessage m \<and>
        (ts m = Some InvalidDate \<or> (\<exists>t. ts m = Some (ValidDate t) \<and> \<bar>now - t\<bar> \<le> 60000)))"
  by (auto simp: isEditedOrOld_def split: option.splits js_date.splits)

text \<open>
  An invalid creation date opens the gate: the message is not edited, \<^verbatim>\<open>!message.ts\<close> is
  false, and \<^verbatim>\<open>NaN > 60000\<close> is false.
\<close>

lemma isEditedOrOld_InvalidDate:
  "ts m = Some InvalidDate \<Longrightarrow> isEditedOrOld now m \<longleftrightarrow> isEditedMessage m"
  by (simp add: isEditedOrOld_def)

lemma map_filter_empty_iff:
  "List.map_filter f xs = [] \<longleftrightarrow> (\<forall>x\<in>set xs. f x = None)"
  by (induction xs) (auto simp: List.map_filter_simps split: option.splits)

lemma length_map_filter:
  "length (List.map_filter f xs) = length (filter (\<lambda>x. f x \<noteq> None) xs)"
  by (induction xs) (auto simp: List.map_filter_simps split: option.splits)

text \<open>\<^verbatim>\<open>Promise.all\<close> resolves exactly when no check vetoes, whatever the settling order.\<close>

lemma promise_all_None:
  "promise_all order res = None \<longleftrightarrow>
     res CheckMAC = None \<and> res MentionAll = None \<and> res MentionHere = None"
proof -
  have "promise_all order res = None \<longleftrightarrow>
        List.map_filter res (order @ [CheckMAC, MentionAll, MentionHere]) = []"
    by (simp add: promise_all_def split: list.splits)
  also have "\<dots> \<longleftrightarrow> (\<forall>c\<in>set order \<union> {CheckMAC, MentionAll, MentionHere}. res c = None)"
    by (simp add: map_filter_empty_iff ball_Un)
  also have "\<dots> \<longleftrightarrow> res CheckMAC = None \<and> res MentionAll = None \<and> res MentionHere = None"
  proof
    assume "\<forall>c\<in>set order \<union> {CheckMAC, MentionAll, MentionHere}. res c = None"
    then show "res CheckMAC = None \<and> res MentionAll = None \<and> res MentionHere = None"
      by simp
  next
    assume three: "res CheckMAC = None \<and> res MentionAll = None \<and> res MentionHere = None"
    have "res c = None" for c
      using three by (cases c) simp_all
    then show "\<forall>c\<in>set order \<union> {CheckMAC, MentionAll, MentionHere}. res c = None"
      by simp
  qed
  finally show ?thesis .
qed

text \<open>When it rejects, the error is the veto of one of the three checks.\<close>

lemma promise_all_Some:
  assumes "promise_all order res = Some e"
  shows "Some e \<in> {res CheckMAC, res MentionAll, res MentionHere}"
proof -
  have mem: "e \<in> set (List.map_filter res xs) \<Longrightarrow> \<exists>c. res c = Some e" for xs
    by (induction xs) (auto simp: List.map_filter_simps split: option.splits)
  from assms have "e \<in> set (List.map_filter res (order @ [CheckMAC, MentionAll, MentionHere]))"
    by (auto simp: promise_all_def split: list.splits)
  then obtain c where "res c = Some e" using mem by blast
  then show ?thesis by (cases c) auto
qed

lemma resolveQuote_quotable: "resolveQuote d u l \<noteq> None \<longleftrightarrow> quotable d u l"
  by (simp add: resolveQuote_def quotable_def split: option.splits)

text \<open>The loop of the quote stage, in closed form.\<close>

lemma appendQuotes_take:
  "appendQuotes d u n ls appended =
     (if n \<le> length appended then appended
      else appended @ take (n - length appended) (List.map_filter (resolveQuote d u) ls))"
proof (induction ls arbitrary: appended)
  case Nil
  then show ?case by (simp add: List.map_filter_simps)
next
  case (Cons l ls)
  show ?case
  proof (cases "resolveQuote d u l")
    case None
    then show ?thesis using Cons.IH [of appended] by (simp add: List.map_filter_simps)
  next
    case (Some a)
    show ?thesis
    proof (cases "n \<le> length appended")
      case True
      then show ?thesis by simp
    next
      case False
      then obtain k where k: "n - length appended = Suc k"
        by (metis Suc_diff_Suc diff_zero not_le zero_less_diff)
      then have "n - length (appended @ [a]) = k" by simp
      with Some False k show ?thesis
        using Cons.IH [of "appended @ [a]"] by (auto simp: List.map_filter_simps)
    qed
  qed
qed

subsection \<open>The freshness gate\<close>

text \<open>
  C1 (amended). For a message whose creation timestamp, when it has one, is a valid date:
  once stages 1 to 4 have returned the message, the validation group (the constraint check
  and both mention guards, on that message) is called exactly when the message has no
  edited marker and has a creation timestamp within 60 seconds of the processing time. A
  message without a creation timestamp skips the group, as an edited or a stale one does.
\<close>

theorem beforeSave_validation_iff_fresh:
  assumes "parseMarkdown h m (getMarkdownConfig (settings_store w0)) w0 = (Inr m1, w1)"
    and "filterBadWords h m1 w1 = (Inr m2, w2)"
    and "convertSpotifyLinks h m2 w2 = (Inr m3, w3)"
    and "createAttachmentForMessageURLs h m3 u (getQuoteConfig (settings_store w3)) w3 = (Inr m4, w4)"
    and "ts m4 \<noteq> Some InvalidDate"
  shows "(validation_calls (fst (beforeSave h m r u w0)) =
            [IsWithinLimits m4 r, PreventMention m4 u ''all'' ''mention-all'',
             PreventMention m4 u ''here'' ''mention-here'']
          \<longleftrightarrow> \<not> isEditedMessage m4 \<and>
              (\<exists>t. ts m4 = Some (ValidDate t) \<and> \<bar>clock w4 - t\<bar> \<le> 60000)) \<and>
         (validation_calls (fst (beforeSave h m r u w0)) = []
          \<longleftrightarrow> \<not> (\<not> isEditedMessage m4 \<and>
                 (\<exists>t. ts m4 = Some (ValidDate t) \<and> \<bar>clock w4 - t\<bar> \<le> 60000)))"
proof -
  have "isEditedOrOld (clock w4) m4 \<longleftrightarrow>
        \<not> (\<not> isEditedMessage m4 \<and>
           (\<exists>t. ts m4 = Some (ValidDate t) \<and> \<bar>clock w4 - t\<bar> \<le> 60000))"
    using assms(5) by (simp add: isEditedOrOld_iff)
  then show ?thesis
    unfolding beforeSave_stages [OF assms(1-4)] by (auto simp: validation_calls_def)
qed

theorem beforeSave_validation_iff_fresh_witness:
  "validation_calls (fst (beforeSave pass_hooks sample_message sample_room sample_user sample_world)) =
     [IsWithinLimits sample_message sample_room,
      PreventMention sample_message sample_user ''all'' ''mention-all'',
      PreventMention sample_message sample_user ''here'' ''mention-here'']
   \<and> validation_calls (fst (beforeSave pass_hooks edited_message sample_room sample_user sample_world)) = []
   \<and> validation_calls (fst (beforeSave pass_hooks undated_message sample_room sample_user sample_world)) = []"
  using beforeSave_validation_iff_fresh [of pass_hooks sample_message sample_world sample_message
      sample_world sample_message sample_world sample_message sample_world sample_user
      sample_message sample_world sample_room]
    beforeSave_validation_iff_fresh [of pass_hooks edited_message sample_world edited_message
      sample_world edited_message sample_world edited_message sample_world sample_user
      edited_message sample_world sample_room]
    beforeSave_validation_iff_fresh [of pass_hooks undated_message sample_world undated_message
      sample_world undated_message sample_world undated_message sample_world sample_user
      undated_message sample_world sample_room]
  by (simp add: pass_hooks_def isEditedMessage_def sample_message_def edited_message_def
      undated_message_def sample_world_def)

text \<open>
  The claim as the spec words it fails on a message that is not edited and has no creation
  timestamp: the spec's \<open>isFreshAndUnedited\<close> holds of it, and the run calls no check.
\<close>

theorem beforeSave_undated_counterexample:
  "\<not> (validation_calls
         (fst (beforeSave pass_hooks undated_message sample_room sample_user sample_world)) \<noteq> []
       \<longleftrightarrow> isFreshAndUnedited_spec (clock sample_world) undated_message)"
  by (simp add: beforeSave_def pass_hooks_def undated_message_def sample_message_def
      isEditedOrOld_def isEditedMessage_def isFreshAndUnedited_spec_def validation_calls_def
      Let_def)

text \<open>
  C4. When the message that reaches the gate has an edited marker, or a creation timestamp
  more than 60 seconds before the processing time, the run calls none of the three checks,
  whatever the message holds and whatever the checks would answer, and returns the
  message.
\<close>

theorem beforeSave_gate_skips:
  assumes "parseMarkdown h m (getMarkdownConfig (settings_store w0)) w0 = (Inr m1, w1)"
    and "filterBadWords h m1 w1 = (Inr m2, w2)"
    and "convertSpotifyLinks h m2 w2 = (Inr m3, w3)"
    and "createAttachmentForMessageURLs h m3 u (getQuoteConfig (settings_store w3)) w3 = (Inr m4, w4)"
    and "isEditedMessage m4 \<or> (\<exists>t. ts m4 = Some (ValidDate t) \<and> clock w4 - t > 60000)"
  shows "validation_calls (fst (beforeSave h m r u w0)) = [] \<and>
         snd (beforeSave h m r u w0) = Inr m4"
proof -
  from assms(5) have "isEditedOrOld (clock w4) m4"
    by (auto simp: isEditedOrOld_def)
  then show ?thesis
    unfolding beforeSave_stages [OF assms(1-4)] by (simp add: validation_calls_def)
qed

theorem beforeSave_gate_skips_witness:
  "validation_calls
     (fst (beforeSave veto_hooks edited_message sample_room sample_user sample_world)) = [] \<and>
   snd (beforeSave veto_hooks stale_message sample_room sample_user sample_world) =
     Inr stale_message"
  using beforeSave_gate_skips [of veto_hooks edited_message sample_world edited_message
      sample_world edited_message sample_world edited_message sample_world sample_user
      edited_message sample_world sample_room]
    beforeSave_gate_skips [of veto_hooks stale_message sample_world stale_message
      sample_world stale_message sample_world stale_message sample_world sample_user
      stale_message sample_world sample_room]
  by (simp add: veto_hooks_def pass_hooks_def isEditedMessage_def
      sample_message_def edited_message_def stale_message_def sample_world_def)

subsection \<open>The order of the stages\<close>

text \<open>
  C2. The calls of every run, in the order they are made, are an initial part of: Markdown,
  BadWords, LinkEnrichment (Spotify), QuoteLink, then the three checks. When the four
  transforms return, the first four calls are exactly these four, each on the message the
  stage before returned; the checks, if called, come after them and see the message of
  stage 4; and a run that returns a message returns that one.
\<close>

theorem beforeSave_stage_order:
  "prefix (map stage_no (fst (beforeSave h m r u w0))) [1, 2, 3, 4, 6, 6, 6] \<and>
   (parseMarkdown h m (getMarkdownConfig (settings_store w0)) w0 = (Inr m1, w1) \<longrightarrow>
    filterBadWords h m1 w1 = (Inr m2, w2) \<longrightarrow>
    convertSpotifyLinks h m2 w2 = (Inr m3, w3) \<longrightarrow>
    createAttachmentForMessageURLs h m3 u (getQuoteConfig (settings_store w3)) w3 = (Inr m4, w4) \<longrightarrow>
      take 4 (fst (beforeSave h m r u w0)) =
        [ParseMarkdown m (getMarkdownConfig (settings_store w0)), FilterBadWords m1,
         ConvertSpotifyLinks m2,
         CreateAttachmentForMessageURLs m3 u (getQuoteConfig (settings_store w3))] \<and>
      drop 4 (fst (beforeSave h m r u w0)) \<in>
        {[], [IsWithinLimits m4 r, PreventMention m4 u ''all'' ''mention-all'',
              PreventMention m4 u ''here'' ''mention-here'']} \<and>
      snd (beforeSave h m r u w0) \<in> range Inl \<union> {Inr m4})"
proof -
  have "prefix (map stage_no (fst (beforeSave h m r u w0))) [1, 2, 3, 4, 6, 6, 6]"
    by (simp add: beforeSave_def Let_def split: prod.splits sum.splits)
  moreover have "take 4 (fst (beforeSave h m r u w0)) =
        [ParseMarkdown m (getMarkdownConfig (settings_store w0)), FilterBadWords m1,
         ConvertSpotifyLinks m2,
         CreateAttachmentForMessageURLs m3 u (getQuoteConfig (settings_store w3))] \<and>
      drop 4 (fst (beforeSave h m r u w0)) \<in>
        {[], [IsWithinLimits m4 r, PreventMention m4 u ''all'' ''mention-all'',
              PreventMention m4 u ''here'' ''mention-here'']} \<and>
      snd (beforeSave h m r u w0) \<in> range Inl \<union> {Inr m4}"
    if "parseMarkdown h m (getMarkdownConfig (settings_store w0)) w0 = (Inr m1, w1)"
      "filterBadWords h m1 w1 = (Inr m2, w2)"
      "convertSpotifyLinks h m2 w2 = (Inr m3, w3)"
      "createAttachmentForMessageURLs h m3 u (getQuoteConfig (settings_store w3)) w3 = (Inr m4, w4)"
    unfolding beforeSave_stages [OF that] by (simp split: option.splits)
  ultimately show ?thesis by blast
qed

theorem beforeSave_stage_order_witness:
  "take 4 (fst (beforeSave mark_hooks sample_message sample_room sample_user sample_world)) =
     [ParseMarkdown sample_message (getMarkdownConfig sample_settings),
      FilterBadWords (sample_message\<lparr>md := Some ''hi @all''\<rparr>),
      ConvertSpotifyLinks (sample_message\<lparr>md := Some ''hi @all'', msg := ''hi @***''\<rparr>),
      CreateAttachmentForMessageURLs
        (sample_message\<lparr>md := Some ''hi @all'', msg := ''hi @***'', sender := ''bob''\<rparr>)
        sample_user (getQuoteConfig sample_settings)]"
  using beforeSave_stage_order [of mark_hooks sample_message sample_room sample_user sample_world
      "sample_message\<lparr>md := Some ''hi @all''\<rparr>" sample_world
      "sample_message\<lparr>md := Some ''hi @all'', msg := ''hi @***''\<rparr>" sample_world
      "sample_message\<lparr>md := Some ''hi @all'', msg := ''hi @***'', sender := ''bob''\<rparr>" sample_world
      "sample_message\<lparr>md := Some ''hi @all'', msg := ''hi @***'', sender := ''bob'',
         attachments := [StreamingLink ''42'']\<rparr>" sample_world]
  by (simp add: mark_hooks_def pass_hooks_def sample_world_def)

subsection \<open>Vetoes\<close>

text \<open>
  C3 (amended). For a message that has no edited marker: when it has a creation timestamp
  within 60 seconds of the processing time, the run returns the message as stage 4
  returned it if none of the three checks vetoes, and if one does the run rejects, returns
  no message, and the error is the veto of one of the checks; when it has no creation
  timestamp, the checks are not called and the run returns the message as stage 4 returned
  it, whatever the checks would answer.
\<close>

theorem beforeSave_veto_or_accept:
  assumes "parseMarkdown h m (getMarkdownConfig (settings_store w0)) w0 = (Inr m1, w1)"
    and "filterBadWords h m1 w1 = (Inr m2, w2)"
    and "convertSpotifyLinks h m2 w2 = (Inr m3, w3)"
    and "createAttachmentForMessageURLs h m3 u (getQuoteConfig (settings_store w3)) w3 = (Inr m4, w4)"
    and "\<not> isEditedMessage m4"
  shows "(ts m4 = Some (ValidDate t) \<longrightarrow> \<bar>clock w4 - t\<bar> \<le> 60000 \<longrightarrow>
            (if isWithinLimits h m4 r w4 = None \<and>
                preventMention h m4 u ''all'' ''mention-all'' w4 = None \<and>
                preventMention h m4 u ''here'' ''mention-here'' w4 = None
             then snd (beforeSave h m r u w0) = Inr m4
             else \<exists>e. snd (beforeSave h m r u w0) = Inl e \<and>
                    Some e \<in> {isWithinLimits h m4 r w4,
                               preventMention h m4 u ''all'' ''mention-all'' w4,
                               preventMention h m4 u ''here'' ''mention-here'' w4})) \<and>
         (ts m4 = None \<longrightarrow>
            validation_calls (fst (beforeSave h m r u w0)) = [] \<and>
            snd (beforeSave h m r u w0) = Inr m4)"
proof -
  let ?res = "\<lambda>c. case c of
                 CheckMAC \<Rightarrow> isWithinLimits h m4 r w4
               | MentionAll \<Rightarrow> preventMention h m4 u ''all'' ''mention-all'' w4
               | MentionHere \<Rightarrow> preventMention h m4 u ''here'' ''mention-here'' w4"
  have dated: "if isWithinLimits h m4 r w4 = None \<and>
                preventMention h m4 u ''all'' ''mention-all'' w4 = None \<and>
                preventMention h m4 u ''here'' ''mention-here'' w4 = None
             then snd (beforeSave h m r u w0) = Inr m4
             else \<exists>e. snd (beforeSave h m r u w0) = Inl e \<and>
                    Some e \<in> {isWithinLimits h m4 r w4,
                               preventMention h m4 u ''all'' ''mention-all'' w4,
                               preventMention h m4 u ''here'' ''mention-here'' w4}"
    if stamp: "ts m4 = Some (ValidDate t)" and window: "\<bar>clock w4 - t\<bar> \<le> 60000"
  proof -
    have fresh: "\<not> isEditedOrOld (clock w4) m4"
      using assms(5) stamp window by (simp add: isEditedOrOld_def)
    have run: "snd (beforeSave h m r u w0) =
          (case promise_all (settle_order h) ?res of Some e \<Rightarrow> Inl e | None \<Rightarrow> Inr m4)"
      unfolding beforeSave_stages [OF assms(1-4)] using fresh by simp
    show ?thesis
    proof (cases "promise_all (settle_order h) ?res")
      case None
      then show ?thesis using run promise_all_None [of "settle_order h" ?res] by simp
    next
      case (Some e)
      then show ?thesis
        using run promise_all_Some [OF Some] promise_all_None [of "settle_order h" ?res] by auto
    qed
  qed
  have undated: "validation_calls (fst (beforeSave h m r u w0)) = [] \<and>
                 snd (beforeSave h m r u w0) = Inr m4"
    if "ts m4 = None"
  proof -
    from that have "isEditedOrOld (clock w4) m4"
      by (simp add: isEditedOrOld_def)
    then show ?thesis
      unfolding beforeSave_stages [OF assms(1-4)] by (simp add: validation_calls_def)
  qed
  from dated undated show ?thesis by blast
qed

theorem beforeSave_veto_or_accept_witness:
  "snd (beforeSave veto_hooks sample_message sample_room sample_user sample_world) =
     Inl (Error ''error-action-not-allowed'') \<and>
   snd (beforeSave pass_hooks sample_message sample_room sample_user sample_world) =
     Inr sample_message \<and>
   snd (beforeSave veto_hooks undated_message sample_room sample_user sample_world) =
     Inr undated_message"
  using beforeSave_veto_or_accept [of veto_hooks sample_message sample_world sample_message
      sample_world sample_message sample_world sample_message sample_world sample_user
      sample_message sample_world 990000 sample_room]
    beforeSave_veto_or_accept [of pass_hooks sample_message sample_world sample_message
      sample_world sample_message sample_world sample_message sample_world sample_user
      sample_message sample_world 990000 sample_room]
    beforeSave_veto_or_accept [of veto_hooks undated_message sample_world undated_message
      sample_world undated_message sample_world undated_message sample_world sample_user
      undated_message sample_world 990000 sample_room]
  by (simp add: veto_hooks_def pass_hooks_def isEditedMessage_def
      sample_message_def undated_message_def sample_world_def)

text \<open>
  The claim as the spec words it fails on a message that is not edited and has no creation
  timestamp: it is fresh and unedited in the spec's sense, the guard of the mention of
  everyone vetoes it, and the run returns the message.
\<close>

theorem beforeSave_undated_veto_counterexample:
  "isFreshAndUnedited_spec (clock sample_world) undated_message \<and>
   preventMention veto_hooks undated_message sample_user ''all'' ''mention-all'' sample_world =
     Some (Error ''error-action-not-allowed'') \<and>
   snd (beforeSave veto_hooks undated_message sample_room sample_user sample_world) =
     Inr undated_message"
  by (simp add: beforeSave_def veto_hooks_def pass_hooks_def undated_message_def
      sample_message_def isEditedOrOld_def isEditedMessage_def isFreshAndUnedited_spec_def
      Let_def)

subsection \<open>The quote-link stage\<close>

text \<open>
  C5. The quote-link stage keeps the attachments the message had and appends the quoted
  attachments of its valid, accessible permalinks in their order of appearance, cut after
  the first N of them, N the chain limit: with K such permalinks it appends exactly
  min(K, N) attachments.
\<close>

theorem quote_stage_chain_limit:
  "attachments (BeforeSaveJumpToMessage_createAttachmentForMessageURLs d scan m u config) =
     attachments m @
     take (chainLimit config)
       (List.map_filter (resolveQuote d u)
          (filter (quotable d u) (scan (siteUrl config) (msg m)))) \<and>
   length (attachments (BeforeSaveJumpToMessage_createAttachmentForMessageURLs d scan m u config)) =
     length (attachments m) +
     min (length (filter (quotable d u) (scan (siteUrl config) (msg m)))) (chainLimit config)"
proof -
  let ?ls = "scan (siteUrl config) (msg m)"
  have same: "List.map_filter (resolveQuote d u) (filter (quotable d u) ls) =
              List.map_filter (resolveQuote d u) ls" for ls
    using resolveQuote_quotable [of d u]
    by (induction ls) (auto simp: List.map_filter_simps split: option.splits)
  have a: "attachments (BeforeSaveJumpToMessage_createAttachmentForMessageURLs d scan m u config) =
        attachments m @ take (chainLimit config) (List.map_filter (resolveQuote d u) ?ls)"
    by (simp add: BeforeSaveJumpToMessage_createAttachmentForMessageURLs_def appendQuotes_take)
  have "(\<lambda>l. resolveQuote d u l \<noteq> None) = quotable d u"
    by (rule ext) (rule resolveQuote_quotable)
  then have "length (List.map_filter (resolveQuote d u) ?ls) = length (filter (quotable d u) ?ls)"
    by (simp only: length_map_filter)
  with a same show ?thesis by (simp add: min.commute)
qed

text \<open>Five permalinks, three of them quotable, chain limit 2: two attachments.\<close>

theorem quote_stage_chain_limit_witness:
  "length (filter (quotable sample_deps sample_user)
      (sample_scan (siteUrl (getQuoteConfig sample_settings)) (msg sample_message))) = 3 \<and>
   chainLimit (getQuoteConfig sample_settings) = 2 \<and>
   length (attachments (BeforeSaveJumpToMessage_createAttachmentForMessageURLs
      sample_deps sample_scan sample_message sample_user (getQuoteConfig sample_settings))) = 2"
proof -
  have k: "length (filter (quotable sample_deps sample_user)
      (sample_scan (siteUrl (getQuoteConfig sample_settings)) (msg sample_message))) = 3"
    by (simp add: quotable_def sample_deps_def sample_scan_def sample_links_def link_to_def
        getQuoteConfig_def sample_settings_def sample_message_def sample_room_def)
  have n: "chainLimit (getQuoteConfig sample_settings) = 2"
    by (simp add: getQuoteConfig_def sample_settings_def)
  have e: "length (attachments sample_message) = 0"
    by (simp add: sample_message_def)
  have "length (attachments (BeforeSaveJumpToMessage_createAttachmentForMessageURLs
      sample_deps sample_scan sample_message sample_user (getQuoteConfig sample_settings))) =
      length (attachments sample_message) +
      min (length (filter (quotable sample_deps sample_user)
             (sample_scan (siteUrl (getQuoteConfig sample_settings)) (msg sample_message))))
          (chainLimit (getQuoteConfig sample_settings))"
    using quote_stage_chain_limit [of sample_deps sample_scan sample_message sample_user
        "getQuoteConfig sample_settings"]
    by (rule conjunct2)
  then have "length (attachments (BeforeSaveJumpToMessage_createAttachmentForMessageURLs
      sample_deps sample_scan sample_message sample_user (getQuoteConfig sample_settings))) = 2"
    unfolding k n e by simp
  with k n show ?thesis by blast
qed

subsection \<open>The bad-words watcher\<close>

text \<open>
  C6. After the watcher's callback has run on settings whose flag
  \<^verbatim>\<open>Message_AllowBadWordsFilter\<close> is off, the bad-words stage is disabled and returns every
  message unchanged, whatever the word lists are and whatever the masking policy; after
  it has run on settings whose flag is on, the stage holds the banned list and the
  whitelist of those settings.
\<close>

theorem configureBadWords_flag:
  "(\<not> Message_AllowBadWordsFilter st \<longrightarrow>
      badWords (configureBadWords_callback (watched_values st) svc) = None \<and>
      BeforeSaveBadWords_filterBadWords clean
        (badWords (configureBadWords_callback (watched_values st) svc)) m = m) \<and>
   (Message_AllowBadWordsFilter st \<longrightarrow>
      badWords (configureBadWords_callback (watched_values st) svc) =
        Some (Message_BadWordsFilterList st, Message_BadWordsWhitelist st))"
  by (simp add: configureBadWords_callback_def watched_values_def disable_def configure_def
      BeforeSaveBadWords_filterBadWords_def)

theorem configureBadWords_flag_witness:
  "BeforeSaveBadWords_filterBadWords sample_clean
     (badWords (configureBadWords_callback (watched_values sample_settings) (created None None)))
     sample_message = sample_message \<and>
   badWords (configureBadWords_callback
       (watched_values (sample_settings\<lparr>Message_AllowBadWordsFilter := True\<rparr>)) (created None None)) =
     Some (''damn'', [])"
proof -
  have off: "\<not> Message_AllowBadWordsFilter sample_settings"
    by (simp add: sample_settings_def)
  have on: "Message_AllowBadWordsFilter (sample_settings\<lparr>Message_AllowBadWordsFilter := True\<rparr>)"
    by simp
  have lists:
    "Message_BadWordsFilterList (sample_settings\<lparr>Message_AllowBadWordsFilter := True\<rparr>) = ''damn'' \<and>
     Message_BadWordsWhitelist (sample_settings\<lparr>Message_AllowBadWordsFilter := True\<rparr>) = []"
    by (simp add: sample_settings_def)
  show ?thesis
    using configureBadWords_flag [of sample_settings "created None None" sample_clean sample_message] off
      configureBadWords_flag [of "sample_settings\<lparr>Message_AllowBadWordsFilter := True\<rparr>"
        "created None None" sample_clean sample_message] on lists
    by metis
qed

subsection \<open>System messages\<close>

text \<open>
  C7. \<^verbatim>\<open>saveSystemMessage\<close> with an owner whose username is missing or empty rejects with
  "The username cannot be empty." and leaves the collection and the broadcasts as they
  were, whatever the insert would do. With a non-empty username it makes the insert with
  that username, and when the insert returns an identifier it returns that identifier,
  with the collection as the insert left it and the broadcast asked for.
\<close>

theorem saveSystemMessage_username:
  "((username owner = None \<or> username owner = Some []) \<longrightarrow>
      saveSystemMessage create st type0 rid0 message0 owner extraData s =
        (Inl (Error ''The username cannot be empty.''), s)) \<and>
   (username owner = Some un \<longrightarrow> un \<noteq> [] \<longrightarrow>
    create \<lparr>sm_type = type0, sm_rid = rid0, sm_message = message0,
            sm_user_id = user_id owner, sm_username = un, sm_name = name owner,
            sm_unread = Message_Read_Receipt_Enabled st, sm_extraData = extraData\<rparr>
           (messages_db s) = (Inr insertedId, db) \<longrightarrow>
      saveSystemMessage create st type0 rid0 message0 owner extraData s =
        (Inr insertedId, \<lparr>messages_db = db, broadcasts = broadcasts s @ [insertedId]\<rparr>))"
  by (auto simp: saveSystemMessage_def)

theorem saveSystemMessage_username_witness:
  "saveSystemMessage sample_create sample_settings ''uj'' ''GENERAL'' ''alice joined''
     nameless_user None empty_persistence =
     (Inl (Error ''The username cannot be empty.''), empty_persistence) \<and>
   saveSystemMessage sample_create sample_settings ''uj'' ''GENERAL'' ''alice joined''
     sample_user None empty_persistence =
     (Inr ''i'', \<lparr>messages_db = [''alice joined''], broadcasts = [''i'']\<rparr>)"
  using saveSystemMessage_username [of nameless_user sample_create sample_settings "''uj''"
      "''GENERAL''" "''alice joined''" None empty_persistence "''alice''" "''i''"
      "[''alice joined'']"]
    saveSystemMessage_username [of sample_user sample_create sample_settings "''uj''"
      "''GENERAL''" "''alice joined''" None empty_persistence "''alice''" "''i''"
      "[''alice joined'']"]
  by (simp add: nameless_user_def sample_user_def sample_create_def empty_persistence_def)

subsection \<open>The avatar resolver\<close>

text \<open>
  C8. The avatar resolver given to the quote stage returns the empty string, and does not
  raise, when the username is absent or empty and when the resolution yields no URL; and
  the quote stage, for a quotable permalink whose author's avatar resolves to the empty
  string, still builds the quoted attachment, with the empty string as its avatar URL.
\<close>

theorem getUserAvatarURL_empty:
  "((user = None \<or> user = Some [] \<or>
     (\<exists>un. user = Some un \<and> (resolver un = Inr None \<or> resolver un = Inr (Some [])))) \<longrightarrow>
      getUserAvatarURL resolver user = Inr []) \<and>
   (quotable d u l \<longrightarrow>
    getUserAvatarURL (avatar_resolver d)
      (map_option sender (find (\<lambda>m. mid m = link_mid l) (getMessages d [link_mid l]))) = Inr [] \<longrightarrow>
      (\<exists>q. resolveQuote d u l = Some (QuotedMessage q) \<and> quote_author_icon q = []))"
  by (auto simp: getUserAvatarURL_def resolveQuote_def quotable_def split: option.splits)

theorem getUserAvatarURL_empty_witness:
  "getUserAvatarURL (avatar_resolver sample_deps) None = Inr [] \<and>
   (\<exists>q. resolveQuote sample_deps sample_user (link_to ''GENERAL'' ''m2'') = Some (QuotedMessage q) \<and>
        quote_author_icon q = [])"
proof -
  have q: "quotable sample_deps sample_user (link_to ''GENERAL'' ''m2'')"
    by (simp add: quotable_def sample_deps_def link_to_def sample_message_def sample_room_def)
  have a: "getUserAvatarURL (avatar_resolver sample_deps)
      (map_option sender (find (\<lambda>m. mid m = link_mid (link_to ''GENERAL'' ''m2''))
         (getMessages sample_deps [link_mid (link_to ''GENERAL'' ''m2'')]))) = Inr []"
    by (simp add: getUserAvatarURL_def sample_deps_def link_to_def sample_message_def)
  show ?thesis
    using getUserAvatarURL_empty [of None "avatar_resolver sample_deps" sample_deps sample_user
        "link_to ''GENERAL'' ''m2''"] q a
    by blast
qed

subsection \<open>Configuration reads\<close>

text \<open>
  C9 (amended). A run reads the settings at two moments, each read taking every value from
  the settings as they are at that moment: the markdown configuration before stage 1, from
  the settings at the start of the run, and the quote configuration (chain limit, site
  URL, real-name flag) when stage 4 is called, from the settings as they are once stage 3
  has returned. No other call receives a configuration.
\<close>

theorem beforeSave_config_reads:
  "(\<exists>rest. fst (beforeSave h m r u w0) =
       ParseMarkdown m (getMarkdownConfig (settings_store w0)) # rest) \<and>
   (parseMarkdown h m (getMarkdownConfig (settings_store w0)) w0 = (Inr m1, w1) \<longrightarrow>
    filterBadWords h m1 w1 = (Inr m2, w2) \<longrightarrow>
    convertSpotifyLinks h m2 w2 = (Inr m3, w3) \<longrightarrow>
      configs_of (fst (beforeSave h m r u w0)) =
        [Inl (getMarkdownConfig (settings_store w0)), Inr (getQuoteConfig (settings_store w3))])"
  by (simp add: beforeSave_def configs_of_def List.map_filter_simps Let_def
      split: prod.splits sum.splits)

theorem beforeSave_config_reads_witness:
  "configs_of (fst (beforeSave reload_hooks sample_message sample_room sample_user sample_world)) =
     [Inl (getMarkdownConfig sample_settings),
      Inr (getQuoteConfig (sample_settings\<lparr>Message_QuoteChainLimit := 5\<rparr>))]"
  using beforeSave_config_reads [of reload_hooks sample_message sample_room sample_user
      sample_world sample_message
      "sample_world\<lparr>settings_store := sample_settings\<lparr>Message_QuoteChainLimit := 5\<rparr>\<rparr>"
      sample_message
      "sample_world\<lparr>settings_store := sample_settings\<lparr>Message_QuoteChainLimit := 5\<rparr>\<rparr>"
      sample_message
      "sample_world\<lparr>settings_store := sample_settings\<lparr>Message_QuoteChainLimit := 5\<rparr>\<rparr>"]
  by (simp add: reload_hooks_def pass_hooks_def sample_world_def)

text \<open>
  The claim as the spec words it fails when a settings change arrives while stage 1 is
  awaited: stage 4 then receives a configuration that is not the one of the start.
\<close>

theorem beforeSave_config_reload_counterexample:
  "\<not> config_read_once sample_world
        (fst (beforeSave reload_hooks sample_message sample_room sample_user sample_world))"
  by (simp add: beforeSave_def reload_hooks_def pass_hooks_def config_read_once_def Let_def
      getQuoteConfig_def sample_world_def sample_settings_def)

subsection \<open>The markdown switch\<close>

text \<open>
  C10. The markdown parser is constructed disabled exactly when the environment variable
  \<^verbatim>\<open>DISABLE_MESSAGE_PARSER\<close> is set and its value, lowercased, is "yes" or "true"; unset, or
  with any other value, the parser is enabled. No settings notification changes the flag
  afterwards.
\<close>

theorem markdownParser_fixed_at_load:
  "(markdownParser (created v b) \<longleftrightarrow> \<not> (\<exists>s. v = Some s \<and> toLowerCase s \<in> {''yes'', ''true''})) \<and>
   markdownParser (fold configureBadWords_callback changes (created v b)) =
     markdownParser (created v b)"
proof -
  have "toLowerCase ''undefined'' \<notin> {''yes'', ''true''}"
    by (simp add: toLowerCase_def)
  then have a: "markdownParser (created v b) \<longleftrightarrow>
      \<not> (\<exists>s. v = Some s \<and> toLowerCase s \<in> {''yes'', ''true''})"
    by (cases v) (simp_all add: created_def disableMarkdownParser_def String_def)
  have keep: "markdownParser (configureBadWords_callback c svc) = markdownParser svc" for c svc
    by (simp add: configureBadWords_callback_def split: prod.splits)
  have "markdownParser (fold configureBadWords_callback changes svc) = markdownParser svc" for svc
    by (induction changes arbitrary: svc) (simp_all add: keep)
  with a show ?thesis by blast
qed

theorem markdownParser_fixed_at_load_witness:
  "\<not> markdownParser (created (Some ''TRUE'') None) \<and>
   \<not> markdownParser (created (Some ''Yes'') None) \<and>
   markdownParser (created (Some ''1'') None) \<and> markdownParser (created None None) \<and>
   \<not> markdownParser (fold configureBadWords_callback
        [(True, ''damn'', []), (False, [], [])] (created (Some ''TRUE'') None))"
  using markdownParser_fixed_at_load [of "Some ''TRUE''" None "[(True, ''damn'', []), (False, [], [])]"]
    markdownParser_fixed_at_load [of "Some ''Yes''" None "[]"]
    markdownParser_fixed_at_load [of "Some ''1''" None "[]"]
    markdownParser_fixed_at_load [of None None "[]"]
  by (simp add: toLowerCase_def lower_char_def)

end
